theory Spec2Isabelle
  imports Main "HOL-Library.Sublist" "HOL-Library.Char_ord" "HOL-Library.List_Lexorder"
begin

section \<open>JavaScript strings and arrays\<close>

text \<open>
  Paths are \<^typ>\<open>string\<close>s; a character stands for one code unit. With
  \<^theory_text>\<open>Char_ord\<close> and \<^theory_text>\<open>List_Lexorder\<close> the order on strings is the
  code-unit-wise lexicographic order in which \<^verbatim>\<open>Array.prototype.sort\<close> (called
  without a comparator) arranges an array of strings, so \<^const>\<open>sort\<close> models
  \<^verbatim>\<open>paths.sort()\<close>.
\<close>

text \<open>\<^verbatim>\<open>s.includes(sub)\<close>: \<open>sub\<close> occurs in \<open>s\<close> as a contiguous substring.\<close>

fun js_includes :: "string \<Rightarrow> string \<Rightarrow> bool" where
  "js_includes [] sub = (sub = [])"
| "js_includes (c # cs) sub = (prefix sub (c # cs) \<or> js_includes cs sub)"

text \<open>
  \<^verbatim>\<open>s.split(sep)\<close> for a string separator. \<open>split_from sep piece rest\<close> scans
  \<open>rest\<close> from left to right; \<open>piece\<close> is the text collected since the last match.
  At a position where \<open>sep\<close> matches, the piece is emitted and the scan resumes
  behind the match; at the end the last piece is emitted. An empty separator splits
  into single code units, and the empty string then gives the empty array.
\<close>

fun split_from :: "string \<Rightarrow> string \<Rightarrow> string \<Rightarrow> string list" where
  "split_from sep piece [] = [piece]"
| "split_from sep piece (c # cs) =
     (if sep \<noteq> [] \<and> prefix sep (c # cs)
      then piece # split_from sep [] (drop (length sep - 1) cs)
      else split_from sep (piece @ [c]) cs)"

definition js_split :: "string \<Rightarrow> string \<Rightarrow> string list" where
  "js_split s sep = (if sep = [] then map (\<lambda>c. [c]) s else split_from sep [] s)"

text \<open>\<^verbatim>\<open>xs.pop()\<close>: the last element, \<open>undefined\<close> (\<open>None\<close>) on the empty array.\<close>

definition pop :: "'a list \<Rightarrow> 'a option" where
  "pop xs = (if xs = [] then None else Some (last xs))"

text \<open>\<^verbatim>\<open>s.endsWith(suf)\<close>.\<close>

definition endsWith :: "string \<Rightarrow> string \<Rightarrow> bool" where
  "endsWith s suf = suffix suf s"

text \<open>
  \<^verbatim>\<open>x || d\<close> for an optional string argument: \<open>undefined\<close> and the empty string
  are falsy.
\<close>

definition or_default :: "string option \<Rightarrow> string \<Rightarrow> string" where
  "or_default x d = (case x of None \<Rightarrow> d | Some s \<Rightarrow> if s = [] then d else s)"

text \<open>lodash \<^verbatim>\<open>_.uniq\<close>: keeps the first occurrence of every element, in order.\<close>

definition uniq :: "'a list \<Rightarrow> 'a list" where
  "uniq xs = fold (\<lambda>x seen. if x \<in> set seen then seen else seen @ [x]) xs []"

section \<open>Data\<close>

text \<open>A rejected promise or a thrown exception carries an \<^verbatim>\<open>Error\<close> with a message.\<close>

datatype error = Error (message: string)

text \<open>
  What the bootstrap handler delivers as \<^verbatim>\<open>results\<close>: an array of error strings
  for the \<^verbatim>\<open>validate\<close> command, an opaque definition object otherwise.
\<close>

datatype json = JArray "string list" | JObject string

record response =
  results :: json

record event =
  command :: string
  calledFromCli :: bool
  doNotMonkeyPatchPromises :: bool

text \<open>A row of browserify's \<^verbatim>\<open>deps\<close> pipeline and an item of \<^verbatim>\<open>fse.walk\<close>.\<close>

record row =
  row_file :: "string option"
  row_id :: string

record item =
  item_path :: string
  item_isDirectory :: bool

text \<open>
  What comes of \<^verbatim>\<open>b.bundle()\<close>: the rows of the \<^verbatim>\<open>deps\<close> pipeline up to its end,
  an \<^verbatim>\<open>error\<close> event on the browserify instance \<open>b\<close>, or an \<^verbatim>\<open>error\<close> event
  on the stream that \<^verbatim>\<open>b.bundle()\<close> returns (where a module that cannot be located
  is reported).
\<close>

datatype traversal = Deps "row list" | ErrorEvent error | BundleError error

text \<open>The value a collaborator's promise resolves with, where the code passes it on.\<close>

datatype jsval = Undefined | Str string

text \<open>
  An archive entry as \<^verbatim>\<open>zip.addLocalFile(localPath, zipPath)\<close> receives it: the
  file to read and the directory inside the archive, \<open>None\<close> (\<^verbatim>\<open>undefined\<close>) for
  the archive root.
\<close>

type_synonym zip_entry = "string \<times> string option"

text \<open>Every call the module makes to a collaborator, as it is logged.\<close>

datatype call =
    EnsureDir string
  | CopyDir string string
  | RunCommand string "string list" string
  | ReadFile string
  | WriteFile string string
  | Handler string event
  | Browserify string
  | Walk string
  | AddLocalFile string "string option"
  | WriteZip string
  | RemoveDir string
  | CheckCredentials
  | Upload string string

text \<open>
  The observable world: the working directories that exist, the archives written
  (by path), and the log of collaborator calls in the order they were made.
\<close>

record world =
  dirs :: "string set"
  zips :: "string \<rightharpoonup> zip_entry list"
  calls :: "call list"

text \<open>
  The collaborators the module requires but does not define (\<^verbatim>\<open>./files\<close>,
  \<^verbatim>\<open>./misc\<close>, \<^verbatim>\<open>./api\<close>, \<^verbatim>\<open>./display\<close>, \<^verbatim>\<open>../constants\<close>, browserify,
  fs-extra, adm-zip, Node's \<^verbatim>\<open>path\<close>, \<^verbatim>\<open>os\<close>, \<^verbatim>\<open>crypto\<close>, \<^verbatim>\<open>process\<close>) are
  parameters: each field gives the outcome of the call on its arguments, \<open>Some e\<close> or
  \<open>Inl e\<close> when the call fails with \<open>e\<close>; \<open>browserify_deps\<close> gives what the
  traversal of the entry leads to. \<open>argOpts_disable_dependency_detection\<close> is
  the truthiness of \<^verbatim>\<open>global.argOpts['disable-dependency-detection']\<close>.
\<close>

record env =
  fs_ensureDir :: "string \<Rightarrow> error option"
  fs_copyDir :: "string \<Rightarrow> string \<Rightarrow> error option"
  fs_removeDir :: "string \<Rightarrow> error option"
  fs_readFile :: "string \<Rightarrow> error + string"
  fs_writeFile :: "string \<Rightarrow> string \<Rightarrow> error option"
  misc_runCommand :: "string \<Rightarrow> string list \<Rightarrow> string \<Rightarrow> error option"
  app_handler :: "string \<Rightarrow> event \<Rightarrow> error + response"
  browserify_deps :: "string \<Rightarrow> traversal"
  fse_walk :: "string \<Rightarrow> error + item list"
  zip_addLocalFile :: "string \<Rightarrow> string option \<Rightarrow> error option"
  zip_writeZip :: "string \<Rightarrow> error option"
  api_checkCredentials :: "error option"
  api_upload :: "string \<Rightarrow> string \<Rightarrow> error + jsval"
  display_prettyJSONstringify :: "json \<Rightarrow> string"
  path_dirname :: "string \<Rightarrow> string"
  path_join :: "string \<Rightarrow> string \<Rightarrow> string"
  os_tmpdir :: string
  crypto_randomHex :: string
  process_cwd :: string
  BUILD_PATH :: string
  PLATFORM_PACKAGE :: string
  argOpts_disable_dependency_detection :: bool

section \<open>Promises\<close>

text \<open>
  A promise is run on the world and is then rejected, fulfilled, or \<open>Pending\<close>: never
  settled, neither \<^verbatim>\<open>resolve\<close> nor \<^verbatim>\<open>reject\<close> is ever called. \<open>andThen p f\<close> is
  \<^verbatim>\<open>p.then(f)\<close> with a single callback: when \<open>p\<close> is rejected, \<open>f\<close> is skipped
  and the rejection passed on; when \<open>p\<close> never settles, \<open>f\<close> never runs and the
  result never settles either.
\<close>

datatype 'a outcome = Rejected error | Fulfilled 'a | Pending

type_synonym 'a promise = "world \<Rightarrow> world \<times> 'a outcome"

text \<open>The promise of a collaborator call that fails with an error or yields a value.\<close>

definition settle :: "error + 'a \<Rightarrow> 'a outcome" where
  "settle r = (case r of Inl e \<Rightarrow> Rejected e | Inr v \<Rightarrow> Fulfilled v)"

definition resolve :: "'a \<Rightarrow> 'a promise" where
  "resolve v w = (w, Fulfilled v)"

definition reject :: "error \<Rightarrow> 'a promise" where
  "reject e w = (w, Rejected e)"

definition andThen :: "'a promise \<Rightarrow> ('a \<Rightarrow> 'b promise) \<Rightarrow> 'b promise" where
  "andThen p f w =
     (case p w of
        (w', Rejected e) \<Rightarrow> (w', Rejected e)
      | (w', Fulfilled v) \<Rightarrow> f v w'
      | (w', Pending) \<Rightarrow> (w', Pending))"

definition logged :: "call \<Rightarrow> world \<Rightarrow> world" where
  "logged c w = w\<lparr>calls := calls w @ [c]\<rparr>"

text \<open>A call to a collaborator that only succeeds or fails.\<close>

definition effect :: "call \<Rightarrow> error option \<Rightarrow> unit promise" where
  "effect c r w = (logged c w, case r of Some e \<Rightarrow> Rejected e | None \<Rightarrow> Fulfilled ())"

section \<open>Collaborator calls\<close>

definition ensureDir :: "env \<Rightarrow> string \<Rightarrow> unit promise" where
  "ensureDir env d w =
     (case fs_ensureDir env d of
        Some e \<Rightarrow> (logged (EnsureDir d) w, Rejected e)
      | None \<Rightarrow> (logged (EnsureDir d) (w\<lparr>dirs := insert d (dirs w)\<rparr>), Fulfilled ()))"

definition removeDir :: "env \<Rightarrow> string \<Rightarrow> unit promise" where
  "removeDir env d w =
     (case fs_removeDir env d of
        Some e \<Rightarrow> (logged (RemoveDir d) w, Rejected e)
      | None \<Rightarrow> (logged (RemoveDir d) (w\<lparr>dirs := dirs w - {d}\<rparr>), Fulfilled ()))"

definition copyDir :: "env \<Rightarrow> string \<Rightarrow> string \<Rightarrow> unit promise" where
  "copyDir env src dst = effect (CopyDir src dst) (fs_copyDir env src dst)"

definition readFile :: "env \<Rightarrow> string \<Rightarrow> string promise" where
  "readFile env p w = (logged (ReadFile p) w, settle (fs_readFile env p))"

definition writeFile :: "env \<Rightarrow> string \<Rightarrow> string \<Rightarrow> unit promise" where
  "writeFile env p content = effect (WriteFile p content) (fs_writeFile env p content)"

definition runCommand :: "env \<Rightarrow> string \<Rightarrow> string list \<Rightarrow> string \<Rightarrow> unit promise" where
  "runCommand env cmd args cwd = effect (RunCommand cmd args cwd) (misc_runCommand env cmd args cwd)"

definition checkCredentials :: "env \<Rightarrow> unit promise" where
  "checkCredentials env = effect CheckCredentials (api_checkCredentials env)"

definition upload :: "env \<Rightarrow> string \<Rightarrow> string \<Rightarrow> jsval promise" where
  "upload env zipPath appDir w =
     (logged (Upload zipPath appDir) w, settle (api_upload env zipPath appDir))"

text \<open>
  \<^verbatim>\<open>zip.addLocalFile\<close> appends an entry to the archive under construction;
  \<^verbatim>\<open>zip.writeZip\<close> writes the archive to the target path.
\<close>

definition addLocalFile :: "env \<Rightarrow> string \<Rightarrow> string option \<Rightarrow> zip_entry list \<Rightarrow> zip_entry list promise" where
  "addLocalFile env localPath zipPath zip_obj w =
     (logged (AddLocalFile localPath zipPath) w,
      case zip_addLocalFile env localPath zipPath of
        Some e \<Rightarrow> Rejected e
      | None \<Rightarrow> Fulfilled (zip_obj @ [(localPath, zipPath)]))"

definition writeZip :: "env \<Rightarrow> zip_entry list \<Rightarrow> string \<Rightarrow> unit promise" where
  "writeZip env zip_obj target w =
     (case zip_writeZip env target of
        Some e \<Rightarrow> (logged (WriteZip target) w, Rejected e)
      | None \<Rightarrow>
          (logged (WriteZip target) (w\<lparr>zips := (zips w)(target \<mapsto> zip_obj)\<rparr>), Fulfilled ()))"

section \<open>The module\<close>

text \<open>\<^verbatim>\<open>const stripPath = (cwd, filePath) => filePath.split(cwd).pop();\<close>\<close>

definition stripPath :: "string \<Rightarrow> string \<Rightarrow> string option" where
  "stripPath cwd filePath = pop (js_split filePath cwd)"

text \<open>
  The value \<^verbatim>\<open>paths.push(stripPath(cwd, filePath))\<close> stores. Both callers pass
  \<open>cwd = dir + '/'\<close>, which is not empty, so the split has at least one piece and
  \<open>pop\<close> is never \<open>undefined\<close> there (lemma \<open>stripPath_slash_defined\<close> below).
\<close>

definition pushed :: "string option \<Rightarrow> string" where
  "pushed v = (case v of Some p \<Rightarrow> p | None \<Rightarrow> ''undefined'')"

text \<open>\<^verbatim>\<open>row.file || row.id\<close>\<close>

definition rowPath :: "row \<Rightarrow> string" where
  "rowPath r = or_default (row_file r) (row_id r)"

text \<open>
  \<open>browserifyFiles\<close>: browserify is set up on the entry
  \<^verbatim>\<open>entryPoint + '/zapierwrapper.js'\<close>. The only rejection wired is
  \<^verbatim>\<open>b.on('error', reject)\<close>; every row of the \<^verbatim>\<open>deps\<close> pipeline pushes its
  stripped path, and at the end of the pipeline the paths are sorted and the promise is
  resolved. The stream that \<^verbatim>\<open>b.bundle()\<close> returns is dropped: an error emitted on
  it reaches neither \<^verbatim>\<open>reject\<close> nor the \<^verbatim>\<open>end\<close> handler, and the promise never
  settles.
\<close>

definition browserifyFiles :: "env \<Rightarrow> string \<Rightarrow> string list promise" where
  "browserifyFiles env entryPoint w =
     (let cwd = entryPoint @ ''/'' in
      (logged (Browserify entryPoint) w,
       case browserify_deps env (entryPoint @ ''/zapierwrapper.js'') of
         ErrorEvent e \<Rightarrow> Rejected e
       | BundleError e \<Rightarrow> Pending
       | Deps rows \<Rightarrow> Fulfilled (sort (map (\<lambda>r. pushed (stripPath cwd (rowPath r))) rows))))"

definition listFiles :: "env \<Rightarrow> string \<Rightarrow> string list promise" where
  "listFiles env dir w =
     (let cwd = dir @ ''/'' in
      (logged (Walk dir) w,
       case fse_walk env dir of
         Inl e \<Rightarrow> Rejected e
       | Inr items \<Rightarrow>
           Fulfilled (sort (map (\<lambda>i. pushed (stripPath cwd (item_path i)))
                       (filter (\<lambda>i. \<not> item_isDirectory i) items)))))"

definition forceIncludeDumbPath :: "string \<Rightarrow> bool" where
  "forceIncludeDumbPath filePath =
     (endsWith filePath ''package.json'' \<or> endsWith filePath ''definition.json'')"

text \<open>The second callback of \<open>makeZip\<close>: the paths handed to the archiving callback.\<close>

definition finalPaths :: "env \<Rightarrow> string list \<Rightarrow> string list \<Rightarrow> string list" where
  "finalPaths env smartPaths dumbPaths =
     (if argOpts_disable_dependency_detection env then dumbPaths
      else sort (uniq (smartPaths @ filter forceIncludeDumbPath dumbPaths)))"

text \<open>The body of \<^verbatim>\<open>paths.forEach\<close> in the third callback of \<open>makeZip\<close>.\<close>

definition addPath :: "env \<Rightarrow> string \<Rightarrow> string \<Rightarrow> zip_entry list \<Rightarrow> zip_entry list promise" where
  "addPath env dir filePath zip_obj =
     (let basePath = path_dirname env filePath;
          basePath = (if basePath = ''.'' then None else Some basePath)
      in addLocalFile env (path_join env dir filePath) basePath zip_obj)"

fun addPaths :: "env \<Rightarrow> string \<Rightarrow> string list \<Rightarrow> zip_entry list \<Rightarrow> zip_entry list promise" where
  "addPaths env dir [] zip_obj = resolve zip_obj"
| "addPaths env dir (filePath # rest) zip_obj =
     andThen (addPath env dir filePath zip_obj) (addPaths env dir rest)"

text \<open>
  The third callback of \<open>makeZip\<close>, the archive packager: a new archive, one
  \<^verbatim>\<open>addLocalFile\<close> per path, then \<^verbatim>\<open>writeZip\<close>. An exception inside the
  executor rejects the promise.
\<close>

definition writeArchive :: "env \<Rightarrow> string \<Rightarrow> string \<Rightarrow> string list \<Rightarrow> unit promise" where
  "writeArchive env dir zipPath paths =
     andThen (addPaths env dir paths []) (\<lambda>zip_obj. writeZip env zip_obj zipPath)"

definition makeZip :: "env \<Rightarrow> string \<Rightarrow> string \<Rightarrow> unit promise" where
  "makeZip env dir zipPath =
     (let p1 = browserifyFiles env dir;
          p2 = andThen p1 (\<lambda>smartPaths.
                 andThen (listFiles env dir) (\<lambda>dumbPaths. resolve (smartPaths, dumbPaths)));
          p3 = andThen p2 (\<lambda>(smartPaths, dumbPaths).
                 resolve (finalPaths env smartPaths dumbPaths));
          p4 = andThen p3 (\<lambda>paths. writeArchive env dir zipPath paths)
      in p4)"

definition appCommandZapierWrapper :: "env \<Rightarrow> string \<Rightarrow> string \<Rightarrow> response promise" where
  "appCommandZapierWrapper env dir cmd w =
     (let ev = \<lparr>command = cmd, calledFromCli = True, doNotMonkeyPatchPromises = True\<rparr>
      in (logged (Handler dir ev) w, settle (app_handler env dir ev)))"

text \<open>
  \<^verbatim>\<open>errors.length\<close> as a condition: an array is truthy here when it is not empty; an
  object without a \<open>length\<close> gives \<open>undefined\<close>, which is falsy.
\<close>

definition length_truthy :: "json \<Rightarrow> bool" where
  "length_truthy j = (case j of JArray xs \<Rightarrow> xs \<noteq> [] | JObject _ \<Rightarrow> False)"

definition validation_message :: string where
  "validation_message = ''We hit some validation errors, try running `zapier validate` to see them!''"

definition tmpDirOf :: "env \<Rightarrow> string" where
  "tmpDirOf env = path_join env (os_tmpdir env) (''zapier-'' @ crypto_randomHex env)"

text \<open>
  \<open>build\<close>: one promise chain, one \<^verbatim>\<open>.then\<close> per line of \<open>p1\<close> to \<open>p11\<close>.
  The calls to \<^verbatim>\<open>printStarting\<close> and \<^verbatim>\<open>printDone\<close> only write to the terminal
  and are left out.
\<close>

definition build :: "env \<Rightarrow> string option \<Rightarrow> string option \<Rightarrow> string promise" where
  "build env zipPath0 wdir0 =
     (let wdir = or_default wdir0 (process_cwd env);
          zipPath = or_default zipPath0 (BUILD_PATH env);
          tmpDir = tmpDirOf env;
          p1 = ensureDir env tmpDir;
          p2 = andThen p1 (\<lambda>_. copyDir env wdir tmpDir);
          p3 = andThen p2 (\<lambda>_. runCommand env ''npm'' [''install'', ''--production''] tmpDir);
          p4 = andThen p3 (\<lambda>_.
                 andThen (readFile env (tmpDir @ ''/node_modules/'' @ PLATFORM_PACKAGE env
                                          @ ''/include/zapierwrapper.js''))
                   (\<lambda>zapierWrapperBuf. writeFile env (tmpDir @ ''/zapierwrapper.js'') zapierWrapperBuf));
          p5 = andThen p4 (\<lambda>_. appCommandZapierWrapper env tmpDir ''validate'');
          p6 = andThen p5 (\<lambda>resp.
                 let errors = results resp in
                 if length_truthy errors then reject (Error validation_message)
                 else resolve ());
          p7 = andThen p6 (\<lambda>_. appCommandZapierWrapper env tmpDir ''definition'');
          p8 = andThen p7 (\<lambda>rawDefinition.
                 writeFile env (tmpDir @ ''/definition.json'')
                   (display_prettyJSONstringify env (results rawDefinition)));
          p9 = andThen p8 (\<lambda>_.
                 runCommand env ''find'' [''.'', ''-exec'', ''touch'', ''-t'', ''201601010000'', ''{}'', ''+'']
                   tmpDir);
          p10 = andThen p9 (\<lambda>_. makeZip env tmpDir (wdir @ ''/'' @ zipPath));
          p11 = andThen p10 (\<lambda>_. removeDir env tmpDir);
          p12 = andThen p11 (\<lambda>_. resolve zipPath)
      in p12)"

definition buildAndUploadDir :: "env \<Rightarrow> string option \<Rightarrow> string option \<Rightarrow> jsval promise" where
  "buildAndUploadDir env zipPath0 appDir0 =
     (let zipPath = or_default zipPath0 (BUILD_PATH env);
          appDir = or_default appDir0 ''.'';
          p1 = checkCredentials env;
          p2 = andThen p1 (\<lambda>_. build env (Some zipPath) (Some appDir));
          p3 = andThen p2 (\<lambda>_. upload env zipPath appDir)
      in p3)"

section \<open>Concrete runs\<close>

text \<open>
  A small project for evaluating the module: the working directory is
  \<^verbatim>\<open>/tmp/zapier-1a2b\<close>, the staged project holds \<^verbatim>\<open>index.js\<close>, \<^verbatim>\<open>lib/a.js\<close>,
  \<^verbatim>\<open>README.md\<close>, \<^verbatim>\<open>package.json\<close>, the injected \<^verbatim>\<open>zapierwrapper.js\<close> and the
  extracted \<^verbatim>\<open>definition.json\<close>; the traversal reaches the wrapper, \<^verbatim>\<open>index.js\<close>
  and \<^verbatim>\<open>lib/a.js\<close>. In \<open>env_ok\<close> every collaborator succeeds.
  \<open>dirname_rel\<close> is \<^verbatim>\<open>path.dirname\<close> on relative paths without trailing or
  doubled slashes.
\<close>

definition dirname_rel :: "string \<Rightarrow> string" where
  "dirname_rel p =
     (if CHR ''/'' \<in> set p then rev (tl (dropWhile (\<lambda>c. c \<noteq> CHR ''/'') (rev p))) else ''.'')"

definition world0 :: world where
  "world0 = \<lparr>dirs = {}, zips = Map.empty, calls = []\<rparr>"

definition validate_event :: event where
  "validate_event = \<lparr>command = ''validate'', calledFromCli = True, doNotMonkeyPatchPromises = True\<rparr>"

definition project_rows :: "row list" where
  "project_rows =
     [\<lparr>row_file = Some ''/tmp/zapier-1a2b/zapierwrapper.js'', row_id = ''1''\<rparr>,
      \<lparr>row_file = Some ''/tmp/zapier-1a2b/index.js'', row_id = ''2''\<rparr>,
      \<lparr>row_file = Some ''/tmp/zapier-1a2b/lib/a.js'', row_id = ''3''\<rparr>]"

definition project_items :: "item list" where
  "project_items =
     [\<lparr>item_path = ''/tmp/zapier-1a2b/lib'', item_isDirectory = True\<rparr>,
      \<lparr>item_path = ''/tmp/zapier-1a2b/lib/a.js'', item_isDirectory = False\<rparr>,
      \<lparr>item_path = ''/tmp/zapier-1a2b/README.md'', item_isDirectory = False\<rparr>,
      \<lparr>item_path = ''/tmp/zapier-1a2b/index.js'', item_isDirectory = False\<rparr>,
      \<lparr>item_path = ''/tmp/zapier-1a2b/package.json'', item_isDirectory = False\<rparr>,
      \<lparr>item_path = ''/tmp/zapier-1a2b/definition.json'', item_isDirectory = False\<rparr>,
      \<lparr>item_path = ''/tmp/zapier-1a2b/zapierwrapper.js'', item_isDirectory = False\<rparr>]"

definition env_ok :: env where
  "env_ok = \<lparr>
     fs_ensureDir = (\<lambda>d. None),
     fs_copyDir = (\<lambda>src dst. None),
     fs_removeDir = (\<lambda>d. None),
     fs_readFile = (\<lambda>p. Inr ''wrapper''),
     fs_writeFile = (\<lambda>p content. None),
     misc_runCommand = (\<lambda>cmd args cwd. None),
     app_handler = (\<lambda>dir ev. if command ev = ''validate'' then Inr \<lparr>results = JArray []\<rparr>
                               else Inr \<lparr>results = JObject ''app''\<rparr>),
     browserify_deps = (\<lambda>entry. Deps project_rows),
     fse_walk = (\<lambda>dir. Inr project_items),
     zip_addLocalFile = (\<lambda>localPath zipPath. None),
     zip_writeZip = (\<lambda>target. None),
     api_checkCredentials = None,
     api_upload = (\<lambda>zipPath appDir. Inr Undefined),
     display_prettyJSONstringify = (\<lambda>j. ''{}''),
     path_dirname = dirname_rel,
     path_join = (\<lambda>a b. a @ ''/'' @ b),
     os_tmpdir = ''/tmp'',
     crypto_randomHex = ''1a2b'',
     process_cwd = ''/proj'',
     BUILD_PATH = ''build.zip'',
     PLATFORM_PACKAGE = ''core'',
     argOpts_disable_dependency_detection = False\<rparr>"

text \<open>The same run with \<^verbatim>\<open>npm install --production\<close> exiting non-zero.\<close>

definition env_install_fails :: env where
  "env_install_fails =
     env_ok\<lparr>misc_runCommand :=
       (\<lambda>cmd args cwd. if cmd = ''npm'' then Some (Error ''npm exited with 1'') else None)\<rparr>"

text \<open>The same run with the application reporting two validation errors.\<close>

definition env_invalid :: env where
  "env_invalid =
     env_ok\<lparr>app_handler :=
       (\<lambda>dir ev. if command ev = ''validate''
                  then Inr \<lparr>results = JArray [''name is required'', ''key is missing'']\<rparr>
                  else Inr \<lparr>results = JObject ''app''\<rparr>)\<rparr>"

text \<open>
  The same run with dependency detection disabled and an \<^verbatim>\<open>error\<close> event on the
  browserify instance.
\<close>

definition env_unresolved :: env where
  "env_unresolved =
     env_ok\<lparr>browserify_deps := (\<lambda>entry. ErrorEvent (Error ''Cannot find module'')),
            argOpts_disable_dependency_detection := True\<rparr>"

text \<open>
  The same run with dependency detection disabled and an entry that requires a module
  which cannot be located: the traversal reports it on the stream of \<^verbatim>\<open>b.bundle()\<close>.
\<close>

definition env_missing_module :: env where
  "env_missing_module =
     env_ok\<lparr>browserify_deps := (\<lambda>entry. BundleError (Error ''Cannot find module ./missing'')),
            argOpts_disable_dependency_detection := True\<rparr>"

text \<open>The same run without credentials.\<close>

definition env_no_credentials :: env where
  "env_no_credentials = env_ok\<lparr>api_checkCredentials := Some (Error ''not logged in'')\<rparr>"





section \<open>Strings: splitting and stripping\<close>

lemma js_includes_sublist: "js_includes s sub \<longleftrightarrow> sublist sub s"
  by (induction s) (auto simp: sublist_Cons_right)








section \<open>Arrays: uniq\<close>

lemma fold_seen_set:
  "set (fold (\<lambda>x seen. if x \<in> set seen then seen else seen @ [x]) xs acc) = set acc \<union> set xs"
  by (induction xs arbitrary: acc) auto

lemma fold_seen_distinct:
  "distinct acc \<Longrightarrow>
   distinct (fold (\<lambda>x seen. if x \<in> set seen then seen else seen @ [x]) xs acc)"
  by (induction xs arbitrary: acc) auto

lemma set_uniq: "set (uniq xs) = set xs"
  by (simp add: uniq_def fold_seen_set)

lemma distinct_uniq: "distinct (uniq xs)"
  by (simp add: uniq_def fold_seen_distinct)

lemma forceIncludeDumbPath_named:
  assumes "name = ''package.json'' \<or> name = ''definition.json''"
      and "p = name \<or> (\<exists>d. p = d @ ''/'' @ name)"
  shows "forceIncludeDumbPath p"
proof -
  have "suffix name p"
    using assms(2) by (auto simp: suffix_def)
  then show ?thesis
    using assms(1) by (auto simp: forceIncludeDumbPath_def endsWith_def)
qed

section \<open>The archive packager\<close>

lemmas stage_defs = ensureDir_def removeDir_def copyDir_def readFile_def writeFile_def
  runCommand_def appCommandZapierWrapper_def effect_def logged_def resolve_def reject_def
  settle_def

lemma addPaths_run:
  "dirs (fst (addPaths env dir paths acc w)) = dirs w \<and>
   zips (fst (addPaths env dir paths acc w)) = zips w \<and>
   (\<exists>cs. calls (fst (addPaths env dir paths acc w)) = calls w @ cs \<and>
         (\<forall>c\<in>set cs. \<exists>l b. c = AddLocalFile l b)) \<and>
   (\<forall>z. snd (addPaths env dir paths acc w) = Fulfilled z \<longrightarrow>
      z = acc @ map (\<lambda>p. (path_join env dir p,
                         if path_dirname env p = ''.'' then None else Some (path_dirname env p))) paths)"
proof (induction paths arbitrary: acc w)
  case Nil
  show ?case by (simp add: resolve_def)
next
  case (Cons p ps)
  define b where "b = (if path_dirname env p = ''.'' then None else Some (path_dirname env p))"
  define w1 where "w1 = logged (AddLocalFile (path_join env dir p) b) w"
  have w1: "dirs w1 = dirs w" "zips w1 = zips w"
    "calls w1 = calls w @ [AddLocalFile (path_join env dir p) b]"
    by (simp_all add: w1_def logged_def)
  show ?case
  proof (cases "zip_addLocalFile env (path_join env dir p) b")
    case (Some e)
    then have "addPaths env dir (p # ps) acc w = (w1, Rejected e)"
      by (simp add: andThen_def addPath_def addLocalFile_def Let_def b_def w1_def)
    then show ?thesis
      using w1 by simp
  next
    case None
    then have step: "addPaths env dir (p # ps) acc w
        = addPaths env dir ps (acc @ [(path_join env dir p, b)]) w1"
      by (simp add: andThen_def addPath_def addLocalFile_def Let_def b_def w1_def)
    from Cons.IH[of "acc @ [(path_join env dir p, b)]" w1]
    obtain cs where cs: "calls (fst (addPaths env dir ps (acc @ [(path_join env dir p, b)]) w1))
          = calls w1 @ cs" "\<forall>c\<in>set cs. \<exists>l b. c = AddLocalFile l b"
      by blast
    have "calls (fst (addPaths env dir (p # ps) acc w))
        = calls w @ (AddLocalFile (path_join env dir p) b # cs)"
      using cs(1) w1(3) step by simp
    moreover have "\<forall>c\<in>set (AddLocalFile (path_join env dir p) b # cs). \<exists>l b. c = AddLocalFile l b"
      using cs(2) by simp
    ultimately have "\<exists>cs. calls (fst (addPaths env dir (p # ps) acc w)) = calls w @ cs \<and>
         (\<forall>c\<in>set cs. \<exists>l b. c = AddLocalFile l b)"
      by blast
    then show ?thesis
      using Cons.IH[of "acc @ [(path_join env dir p, b)]" w1] w1 step
      by (simp add: b_def)
  qed
qed

lemma addPaths_settled:
  assumes "addPaths env dir paths acc w = (w', r)"
  shows "dirs w' = dirs w \<and> zips w' = zips w"
  using addPaths_run[of env dir paths acc w] assms by simp

lemma addPaths_fulfilled:
  assumes "addPaths env dir paths acc w = (w', Fulfilled z)"
  shows "zips w' = zips w \<and>
      z = acc @ map (\<lambda>p. (path_join env dir p,
                         if path_dirname env p = ''.'' then None else Some (path_dirname env p))) paths"
  using addPaths_run[of env dir paths acc w] assms by simp

lemma writeArchive_fulfilled:
  assumes "writeArchive env dir zipPath paths w = (w', Fulfilled u)"
  shows "zips w' = (zips w)(zipPath \<mapsto>
           map (\<lambda>p. (path_join env dir p,
                     if path_dirname env p = ''.'' then None else Some (path_dirname env p))) paths)"
  using assms
  unfolding writeArchive_def andThen_def writeZip_def logged_def
  by (auto split: outcome.splits sum.splits option.splits prod.splits dest!: addPaths_fulfilled)

lemma writeArchive_dirs:
  assumes "writeArchive env dir zipPath paths w = (w', r)"
  shows "dirs w' = dirs w"
  using assms
  unfolding writeArchive_def andThen_def writeZip_def logged_def
  by (auto split: outcome.splits sum.splits option.splits prod.splits dest: addPaths_settled)

lemma makeZip_dirs:
  assumes "makeZip env dir zipPath w = (w', r)"
  shows "dirs w' = dirs w"
  using assms
  unfolding makeZip_def Let_def andThen_def browserifyFiles_def listFiles_def
    resolve_def logged_def
  by (auto split: outcome.splits traversal.splits sum.splits prod.splits dest: writeArchive_dirs)

lemma makeZip_archive:
  assumes "makeZip env dir zipPath w = (w', Fulfilled u)"
  shows "\<exists>smartPaths dumbPaths.
           snd (browserifyFiles env dir w) = Fulfilled smartPaths \<and>
           snd (listFiles env dir w) = Fulfilled dumbPaths \<and>
           zips w' = (zips w)(zipPath \<mapsto>
             map (\<lambda>p. (path_join env dir p,
                       if path_dirname env p = ''.'' then None else Some (path_dirname env p)))
               (finalPaths env smartPaths dumbPaths))"
  using assms
  unfolding makeZip_def Let_def andThen_def browserifyFiles_def listFiles_def
    resolve_def logged_def
  by (auto split: outcome.splits traversal.splits sum.splits prod.splits dest!: writeArchive_fulfilled)

lemma makeZip_error_event:
  assumes "browserify_deps env (dir @ ''/zapierwrapper.js'') = ErrorEvent e"
  shows "makeZip env dir zipPath w = (logged (Browserify dir) w, Rejected e)"
  using assms
  by (simp add: makeZip_def Let_def andThen_def browserifyFiles_def)

lemma makeZip_bundle_error:
  assumes "browserify_deps env (dir @ ''/zapierwrapper.js'') = BundleError e"
  shows "makeZip env dir zipPath w = (logged (Browserify dir) w, Pending)"
  using assms
  by (simp add: makeZip_def Let_def andThen_def browserifyFiles_def)

section \<open>Claims\<close>

subsection \<open>C1: cleanup of the working directory\<close>

text \<open>
  C1 says that the working directory is removed on every exit path of \<open>build\<close>,
  also when a stage fails. The chain has no rejection handler: a failing stage skips
  all later callbacks, \<open>removeDir\<close> among them. With \<^verbatim>\<open>npm install\<close> failing, the
  error reaches the caller while the directory created by stage 1 still exists and
  \<open>removeDir\<close> was never called.
\<close>

theorem build_leaves_tmpdir_counterexample:
  "snd (build env_install_fails None None world0) = Rejected (Error ''npm exited with 1'') \<and>
   tmpDirOf env_install_fails \<in> dirs (fst (build env_install_fails None None world0)) \<and>
   RemoveDir (tmpDirOf env_install_fails) \<notin> set (calls (fst (build env_install_fails None None world0)))"
  by code_simp

text \<open>
  C1, amended: when \<open>build\<close> succeeds, the working directory has been removed when the
  archive path is returned; when \<open>build\<close> fails after the working directory was
  created, the directory still exists when the error reaches the caller. A run that
  never settles leaves the directory behind as well.
\<close>

theorem build_cleanup_only_on_success:
  assumes "build env zipPath wdir w = (w', r)"
  shows "(\<forall>p. r = Fulfilled p \<longrightarrow> tmpDirOf env \<notin> dirs w') \<and>
         (\<forall>e. r = Rejected e \<longrightarrow> fs_ensureDir env (tmpDirOf env) = None \<longrightarrow> tmpDirOf env \<in> dirs w') \<and>
         (r = Pending \<longrightarrow> tmpDirOf env \<in> dirs w')"
  using assms
  unfolding build_def Let_def andThen_def stage_defs
  by (auto split: outcome.splits option.splits sum.splits prod.splits if_splits dest: makeZip_dirs)

theorem build_cleanup_only_on_success_witness:
  "snd (build env_ok None None world0) = Fulfilled ''build.zip'' \<and>
   tmpDirOf env_ok \<notin> dirs (fst (build env_ok None None world0)) \<and>
   snd (build env_install_fails (Some ''out.zip'') (Some ''/proj'') world0)
     = Rejected (Error ''npm exited with 1'') \<and>
   fs_ensureDir env_install_fails (tmpDirOf env_install_fails) = None \<and>
   tmpDirOf env_install_fails
     \<in> dirs (fst (build env_install_fails (Some ''out.zip'') (Some ''/proj'') world0)) \<and>
   snd (build env_missing_module None None world0) = Pending \<and>
   tmpDirOf env_missing_module \<in> dirs (fst (build env_missing_module None None world0))"
proof -
  have ok: "snd (build env_ok None None world0) = Fulfilled ''build.zip''"
    by code_simp
  have failed: "snd (build env_install_fails (Some ''out.zip'') (Some ''/proj'') world0)
     = Rejected (Error ''npm exited with 1'')"
    by code_simp
  have created: "fs_ensureDir env_install_fails (tmpDirOf env_install_fails) = None"
    by (simp add: env_install_fails_def env_ok_def)
  have pending: "snd (build env_missing_module None None world0) = Pending"
    by code_simp
  show ?thesis
    using ok failed created pending
      build_cleanup_only_on_success[OF surjective_pairing, of env_ok None None world0]
      build_cleanup_only_on_success[OF surjective_pairing,
        of env_install_fails "Some ''out.zip''" "Some ''/proj''" world0]
      build_cleanup_only_on_success[OF surjective_pairing, of env_missing_module None None world0]
    by blast
qed

subsection \<open>C2: validation errors stop the build\<close>

text \<open>
  C2: when the in-process validation call returns a non-empty list of errors, \<open>build\<close>
  fails with an error and no archive is produced: no archive is written and the
  archiving stage, which starts with the call to the resolver, is not reached.
\<close>

theorem validation_errors_abort_build:
  assumes "app_handler env (tmpDirOf env) validate_event = Inr resp"
      and "results resp = JArray errs" and "errs \<noteq> []"
  shows "\<exists>w' e cs. build env zipPath wdir w = (w', Rejected e) \<and> zips w' = zips w \<and>
           calls w' = calls w @ cs \<and> Browserify (tmpDirOf env) \<notin> set cs \<and>
           (\<forall>target. WriteZip target \<notin> set cs)"
  using assms
  unfolding build_def Let_def andThen_def stage_defs length_truthy_def validate_event_def
  by (auto split: outcome.splits option.splits sum.splits)

theorem validation_errors_abort_build_witness:
  "app_handler env_invalid (tmpDirOf env_invalid) validate_event
     = Inr \<lparr>results = JArray [''name is required'', ''key is missing'']\<rparr> \<and>
   [''name is required'', ''key is missing''] \<noteq> [] \<and>
   (\<exists>w' e cs. build env_invalid None None world0 = (w', Rejected e) \<and> zips w' = zips world0 \<and>
      calls w' = calls world0 @ cs \<and> Browserify (tmpDirOf env_invalid) \<notin> set cs \<and>
      (\<forall>target. WriteZip target \<notin> set cs))"
proof -
  have h: "app_handler env_invalid (tmpDirOf env_invalid) validate_event
     = Inr \<lparr>results = JArray [''name is required'', ''key is missing'']\<rparr>"
    by (simp add: env_invalid_def env_ok_def validate_event_def)
  have r: "results \<lparr>results = JArray [''name is required'', ''key is missing'']\<rparr>
     = JArray [''name is required'', ''key is missing'']"
    by simp
  have n: "[''name is required'', ''key is missing''] \<noteq> []"
    by simp
  show ?thesis
    using h n validation_errors_abort_build[OF h r n, of None None world0]
    by blast
qed

subsection \<open>C3: the inclusion policy\<close>

text \<open>
  C3: with dependency detection enabled the paths handed to the packager are the
  resolver's paths together with exactly the scanned paths that satisfy
  \<open>forceIncludeDumbPath\<close>, without duplicates and sorted ascending; with detection
  disabled they are the full scan. For a resolver result \<^verbatim>\<open>['index.js']\<close> and a scan
  \<^verbatim>\<open>['README.md', 'index.js', 'package.json']\<close> the result under detection is
  \<^verbatim>\<open>['index.js', 'package.json']\<close>. The archive \<open>makeZip\<close> writes has one entry
  for each of these paths, in this order.
\<close>

theorem finalPaths_policy:
  "(\<not> argOpts_disable_dependency_detection env \<longrightarrow>
      sorted (finalPaths env smartPaths dumbPaths) \<and>
      distinct (finalPaths env smartPaths dumbPaths) \<and>
      set (finalPaths env smartPaths dumbPaths) =
        set smartPaths \<union> {p \<in> set dumbPaths. forceIncludeDumbPath p}) \<and>
   (argOpts_disable_dependency_detection env \<longrightarrow>
      finalPaths env smartPaths dumbPaths = dumbPaths) \<and>
   (\<not> argOpts_disable_dependency_detection env \<longrightarrow>
      finalPaths env [''index.js''] [''README.md'', ''index.js'', ''package.json'']
        = [''index.js'', ''package.json'']) \<and>
   (makeZip env dir zipPath w = (w', Fulfilled u) \<longrightarrow>
      (\<exists>smart dumb entries.
         snd (browserifyFiles env dir w) = Fulfilled smart \<and> snd (listFiles env dir w) = Fulfilled dumb \<and>
         zips w' zipPath = Some entries \<and>
         map fst entries = map (path_join env dir) (finalPaths env smart dumb)))"
proof (intro conjI impI)
  assume smart: "\<not> argOpts_disable_dependency_detection env"
  show "sorted (finalPaths env smartPaths dumbPaths)"
    using smart by (simp add: finalPaths_def)
  show "distinct (finalPaths env smartPaths dumbPaths)"
    using smart by (simp add: finalPaths_def distinct_uniq)
  show "set (finalPaths env smartPaths dumbPaths) =
        set smartPaths \<union> {p \<in> set dumbPaths. forceIncludeDumbPath p}"
    using smart by (simp add: finalPaths_def set_uniq)
next
  assume "argOpts_disable_dependency_detection env"
  then show "finalPaths env smartPaths dumbPaths = dumbPaths"
    by (simp add: finalPaths_def)
next
  assume smart: "\<not> argOpts_disable_dependency_detection env"
  have "sort (uniq ([''index.js''] @
          filter forceIncludeDumbPath [''README.md'', ''index.js'', ''package.json'']))
      = [''index.js'', ''package.json'']"
    by code_simp
  then show "finalPaths env [''index.js''] [''README.md'', ''index.js'', ''package.json'']
        = [''index.js'', ''package.json'']"
    using smart by (simp add: finalPaths_def)
next
  assume "makeZip env dir zipPath w = (w', Fulfilled u)"
  then obtain smart dumb where
    found: "snd (browserifyFiles env dir w) = Fulfilled smart" "snd (listFiles env dir w) = Fulfilled dumb" and
    written: "zips w' = (zips w)(zipPath \<mapsto>
             map (\<lambda>p. (path_join env dir p,
                       if path_dirname env p = ''.'' then None else Some (path_dirname env p)))
               (finalPaths env smart dumb))"
    using makeZip_archive by blast
  have "map fst (map (\<lambda>p. (path_join env dir p,
                       if path_dirname env p = ''.'' then None else Some (path_dirname env p)))
               (finalPaths env smart dumb)) = map (path_join env dir) (finalPaths env smart dumb)"
    by (simp add: comp_def)
  then show "\<exists>smart dumb entries.
         snd (browserifyFiles env dir w) = Fulfilled smart \<and> snd (listFiles env dir w) = Fulfilled dumb \<and>
         zips w' zipPath = Some entries \<and>
         map fst entries = map (path_join env dir) (finalPaths env smart dumb)"
    using found written by auto
qed

theorem finalPaths_policy_witness:
  "\<not> argOpts_disable_dependency_detection env_ok \<and>
   sorted (finalPaths env_ok [''lib/a.js'', ''index.js''] [''README.md'', ''index.js'', ''package.json'']) \<and>
   distinct (finalPaths env_ok [''lib/a.js'', ''index.js''] [''README.md'', ''index.js'', ''package.json'']) \<and>
   set (finalPaths env_ok [''lib/a.js'', ''index.js''] [''README.md'', ''index.js'', ''package.json''])
     = set [''lib/a.js'', ''index.js'']
       \<union> {p \<in> set [''README.md'', ''index.js'', ''package.json'']. forceIncludeDumbPath p} \<and>
   finalPaths env_ok [''index.js''] [''README.md'', ''index.js'', ''package.json'']
     = [''index.js'', ''package.json''] \<and>
   argOpts_disable_dependency_detection env_unresolved \<and>
   finalPaths env_unresolved [''lib/a.js'', ''index.js''] [''README.md'', ''index.js'', ''package.json'']
     = [''README.md'', ''index.js'', ''package.json''] \<and>
   snd (makeZip env_ok ''/tmp/zapier-1a2b'' ''/proj/build.zip'' world0) = Fulfilled () \<and>
   (\<exists>smart dumb entries.
      snd (browserifyFiles env_ok ''/tmp/zapier-1a2b'' world0) = Fulfilled smart \<and>
      snd (listFiles env_ok ''/tmp/zapier-1a2b'' world0) = Fulfilled dumb \<and>
      zips (fst (makeZip env_ok ''/tmp/zapier-1a2b'' ''/proj/build.zip'' world0)) ''/proj/build.zip''
        = Some entries \<and>
      map fst entries = map (path_join env_ok ''/tmp/zapier-1a2b'') (finalPaths env_ok smart dumb))"
proof -
  have smart: "\<not> argOpts_disable_dependency_detection env_ok"
    by (simp add: env_ok_def)
  have all: "argOpts_disable_dependency_detection env_unresolved"
    by (simp add: env_unresolved_def)
  have ok: "snd (makeZip env_ok ''/tmp/zapier-1a2b'' ''/proj/build.zip'' world0) = Fulfilled ()"
    by code_simp
  have run: "makeZip env_ok ''/tmp/zapier-1a2b'' ''/proj/build.zip'' world0
      = (fst (makeZip env_ok ''/tmp/zapier-1a2b'' ''/proj/build.zip'' world0), Fulfilled ())"
    using ok by (simp add: prod_eq_iff)
  show ?thesis
    using smart all ok run
      finalPaths_policy[of env_ok "[''lib/a.js'', ''index.js'']"
        "[''README.md'', ''index.js'', ''package.json'']" "''/tmp/zapier-1a2b''" "''/proj/build.zip''"
        world0 "fst (makeZip env_ok ''/tmp/zapier-1a2b'' ''/proj/build.zip'' world0)" "()"]
      finalPaths_policy[of env_unresolved "[''lib/a.js'', ''index.js'']"
        "[''README.md'', ''index.js'', ''package.json'']"]
    by blast
qed

subsection \<open>C4: manifests and definitions in the archive\<close>

text \<open>
  For the paths of the directory scan the policy does what C4 says: a scanned path
  whose last component is exactly \<^verbatim>\<open>package.json\<close> or \<^verbatim>\<open>definition.json\<close> is in
  the list handed to the packager with dependency detection disabled and enabled,
  whatever the resolver reached, and has an entry in the archive \<open>makeZip\<close> writes.
\<close>

lemma scanned_manifests_archived:
  assumes "snd (listFiles env dir w) = Fulfilled dumbPaths"
      and "p \<in> set dumbPaths"
      and "name = ''package.json'' \<or> name = ''definition.json''"
      and "p = name \<or> (\<exists>d. p = d @ ''/'' @ name)"
  shows "p \<in> set (finalPaths (env\<lparr>argOpts_disable_dependency_detection := True\<rparr>) smartPaths dumbPaths) \<and>
         p \<in> set (finalPaths (env\<lparr>argOpts_disable_dependency_detection := False\<rparr>) smartPaths dumbPaths) \<and>
         (\<forall>zipPath w' u. makeZip env dir zipPath w = (w', Fulfilled u) \<longrightarrow>
            (\<exists>entries b. zips w' zipPath = Some entries \<and> (path_join env dir p, b) \<in> set entries))"
proof (intro conjI allI impI)
  have forced: "forceIncludeDumbPath p"
    using assms(3,4) by (rule forceIncludeDumbPath_named)
  have member: "p \<in> set (finalPaths env' smart dumbPaths)" for env' smart
    using forced assms(2) by (simp add: finalPaths_def set_uniq)
  show "p \<in> set (finalPaths (env\<lparr>argOpts_disable_dependency_detection := True\<rparr>) smartPaths dumbPaths)"
    by (rule member)
  show "p \<in> set (finalPaths (env\<lparr>argOpts_disable_dependency_detection := False\<rparr>) smartPaths dumbPaths)"
    by (rule member)
  fix zipPath w' u
  assume "makeZip env dir zipPath w = (w', Fulfilled u)"
  then obtain smart dumb where
    dumb: "snd (listFiles env dir w) = Fulfilled dumb" and
    written: "zips w' = (zips w)(zipPath \<mapsto>
             map (\<lambda>p. (path_join env dir p,
                       if path_dirname env p = ''.'' then None else Some (path_dirname env p)))
               (finalPaths env smart dumb))"
    using makeZip_archive by blast
  have "dumb = dumbPaths"
    using dumb assms(1) by simp
  then have "p \<in> set (finalPaths env smart dumb)"
    using member by simp
  then have "(path_join env dir p,
              if path_dirname env p = ''.'' then None else Some (path_dirname env p))
           \<in> set (map (\<lambda>p. (path_join env dir p,
                       if path_dirname env p = ''.'' then None else Some (path_dirname env p)))
               (finalPaths env smart dumb))"
    unfolding set_map by (rule imageI)
  then show "\<exists>entries b. zips w' zipPath = Some entries \<and> (path_join env dir p, b) \<in> set entries"
    using written by auto
qed


subsection \<open>C5: what the resolver returns\<close>

text \<open>
  Whatever the traversal reports, the resolver's list is sorted ascending.
\<close>

lemma resolver_result_sorted:
  assumes "browserify_deps env (entryPoint @ ''/zapierwrapper.js'') = Deps rows"
  shows "\<exists>paths. snd (browserifyFiles env entryPoint w) = Fulfilled paths \<and> sorted paths"
  using assms by (simp add: browserifyFiles_def)


subsection \<open>C6: build and upload\<close>

text \<open>
  C6 says that \<open>buildAndUploadDir\<close> checks the credentials, builds, uploads and
  returns the archive path. The last callback returns the promise of \<open>upload\<close>, so
  the value returned is what the upload collaborator resolves with: in a run where
  \<open>build\<close> yields \<^verbatim>\<open>build.zip\<close> and the upload resolves with \<open>undefined\<close>, the
  result is \<open>undefined\<close>.
\<close>

theorem buildAndUploadDir_result_counterexample:
  "snd (build env_ok (Some ''build.zip'') (Some ''/proj'') (logged CheckCredentials world0))
     = Fulfilled ''build.zip'' \<and>
   snd (buildAndUploadDir env_ok (Some ''build.zip'') (Some ''/proj'') world0) = Fulfilled Undefined"
  by code_simp

text \<open>
  C6, amended: \<open>buildAndUploadDir\<close> first checks the credentials and, when the check
  fails, fails with its error without running the build or the upload; otherwise it
  runs \<open>build\<close>; when \<open>build\<close> fails it fails with that error without uploading;
  otherwise it calls \<open>upload\<close> with the archive path and the project directory and
  settles as \<open>upload\<close> does.
\<close>

theorem buildAndUploadDir_sequence:
  "(api_checkCredentials env = Some e \<longrightarrow>
      buildAndUploadDir env zipPath0 appDir0 w = (logged CheckCredentials w, Rejected e)) \<and>
   (api_checkCredentials env = None \<longrightarrow>
      build env (Some (or_default zipPath0 (BUILD_PATH env))) (Some (or_default appDir0 ''.''))
        (logged CheckCredentials w) = (w1, Rejected e) \<longrightarrow>
      buildAndUploadDir env zipPath0 appDir0 w = (w1, Rejected e)) \<and>
   (api_checkCredentials env = None \<longrightarrow>
      build env (Some (or_default zipPath0 (BUILD_PATH env))) (Some (or_default appDir0 ''.''))
        (logged CheckCredentials w) = (w1, Fulfilled p) \<longrightarrow>
      buildAndUploadDir env zipPath0 appDir0 w =
        (logged (Upload (or_default zipPath0 (BUILD_PATH env)) (or_default appDir0 ''.'')) w1,
         settle (api_upload env (or_default zipPath0 (BUILD_PATH env)) (or_default appDir0 ''.''))))"
  by (simp add: buildAndUploadDir_def Let_def andThen_def checkCredentials_def effect_def upload_def)

theorem buildAndUploadDir_sequence_witness:
  "api_checkCredentials env_no_credentials = Some (Error ''not logged in'') \<and>
   buildAndUploadDir env_no_credentials None None world0
     = (logged CheckCredentials world0, Rejected (Error ''not logged in'')) \<and>
   api_checkCredentials env_install_fails = None \<and>
   snd (build env_install_fails (Some (or_default None (BUILD_PATH env_install_fails)))
          (Some (or_default None ''.'')) (logged CheckCredentials world0))
     = Rejected (Error ''npm exited with 1'') \<and>
   snd (buildAndUploadDir env_install_fails None None world0) = Rejected (Error ''npm exited with 1'') \<and>
   api_checkCredentials env_ok = None \<and>
   snd (build env_ok (Some (or_default None (BUILD_PATH env_ok))) (Some (or_default None ''.''))
          (logged CheckCredentials world0))
     = Fulfilled ''build.zip'' \<and>
   snd (buildAndUploadDir env_ok None None world0)
     = settle (api_upload env_ok (or_default None (BUILD_PATH env_ok)) (or_default None ''.''))"
proof -
  have c1: "api_checkCredentials env_no_credentials = Some (Error ''not logged in'')"
    by (simp add: env_no_credentials_def)
  have c2: "api_checkCredentials env_install_fails = None"
    by (simp add: env_install_fails_def env_ok_def)
  have c3: "api_checkCredentials env_ok = None"
    by (simp add: env_ok_def)
  have b2: "snd (build env_install_fails (Some (or_default None (BUILD_PATH env_install_fails)))
          (Some (or_default None ''.'')) (logged CheckCredentials world0))
     = Rejected (Error ''npm exited with 1'')"
    by code_simp
  have b3: "snd (build env_ok (Some (or_default None (BUILD_PATH env_ok))) (Some (or_default None ''.''))
          (logged CheckCredentials world0))
     = Fulfilled ''build.zip''"
    by code_simp
  have r2: "build env_install_fails (Some (or_default None (BUILD_PATH env_install_fails)))
          (Some (or_default None ''.'')) (logged CheckCredentials world0)
     = (fst (build env_install_fails (Some (or_default None (BUILD_PATH env_install_fails)))
          (Some (or_default None ''.'')) (logged CheckCredentials world0)),
        Rejected (Error ''npm exited with 1''))"
    using b2 by (simp add: prod_eq_iff)
  have r3: "build env_ok (Some (or_default None (BUILD_PATH env_ok))) (Some (or_default None ''.''))
          (logged CheckCredentials world0)
     = (fst (build env_ok (Some (or_default None (BUILD_PATH env_ok))) (Some (or_default None ''.''))
          (logged CheckCredentials world0)), Fulfilled ''build.zip'')"
    using b3 by (simp add: prod_eq_iff)
  have s1: "buildAndUploadDir env_no_credentials None None world0
     = (logged CheckCredentials world0, Rejected (Error ''not logged in''))"
    using c1 buildAndUploadDir_sequence[of env_no_credentials "Error ''not logged in''" None None world0]
    by blast
  have s2: "snd (buildAndUploadDir env_install_fails None None world0)
     = Rejected (Error ''npm exited with 1'')"
    using c2 r2 buildAndUploadDir_sequence[of env_install_fails "Error ''npm exited with 1''" None None
      world0 "fst (build env_install_fails (Some (or_default None (BUILD_PATH env_install_fails)))
          (Some (or_default None ''.'')) (logged CheckCredentials world0))"]
    by simp
  have s3: "snd (buildAndUploadDir env_ok None None world0)
     = settle (api_upload env_ok (or_default None (BUILD_PATH env_ok)) (or_default None ''.''))"
    using c3 r3 buildAndUploadDir_sequence[of env_ok _ None None
      world0 "fst (build env_ok (Some (or_default None (BUILD_PATH env_ok)))
          (Some (or_default None ''.'')) (logged CheckCredentials world0))" "''build.zip''"]
    by simp
  show ?thesis
    using c1 c2 c3 b2 b3 s1 s2 s3 by blast
qed

subsection \<open>C7: the validation error message\<close>

text \<open>
  C7 says that the error raised for validation errors lists each reported problem.
  The error thrown has one fixed message that points to \<^verbatim>\<open>zapier validate\<close>; with
  the problems \<^verbatim>\<open>name is required\<close> and \<^verbatim>\<open>key is missing\<close> reported, the message
  contains neither.
\<close>

theorem validation_message_counterexample:
  "snd (build env_invalid None None world0) = Rejected (Error validation_message) \<and>
   \<not> js_includes validation_message ''name is required'' \<and>
   \<not> js_includes validation_message ''key is missing''"
  by code_simp

text \<open>
  C7, amended: when validation reports one or more errors, \<open>build\<close> fails, and if the
  run got as far as the validation call, the error is the single fixed message
  \<open>validation_message\<close>, the same whatever problems were reported.
\<close>

theorem validation_error_is_aggregate:
  assumes "app_handler env (tmpDirOf env) validate_event = Inr resp"
      and "results resp = JArray errs" and "errs \<noteq> []"
  shows "\<exists>w' e cs. build env zipPath wdir w = (w', Rejected e) \<and> calls w' = calls w @ cs \<and>
           (Handler (tmpDirOf env) validate_event \<in> set cs \<longrightarrow> e = Error validation_message)"
  using assms
  unfolding build_def Let_def andThen_def stage_defs length_truthy_def validate_event_def
  by (auto split: outcome.splits option.splits sum.splits)

theorem validation_error_is_aggregate_witness:
  "app_handler env_invalid (tmpDirOf env_invalid) validate_event
     = Inr \<lparr>results = JArray [''name is required'', ''key is missing'']\<rparr> \<and>
   [''name is required'', ''key is missing''] \<noteq> [] \<and>
   Handler (tmpDirOf env_invalid) validate_event
     \<in> set (calls (fst (build env_invalid None None world0))) \<and>
   (\<exists>w' e cs. build env_invalid None None world0 = (w', Rejected e) \<and> calls w' = calls world0 @ cs \<and>
      (Handler (tmpDirOf env_invalid) validate_event \<in> set cs \<longrightarrow> e = Error validation_message))"
proof -
  have h: "app_handler env_invalid (tmpDirOf env_invalid) validate_event
     = Inr \<lparr>results = JArray [''name is required'', ''key is missing'']\<rparr>"
    by (simp add: env_invalid_def env_ok_def validate_event_def)
  have r: "results \<lparr>results = JArray [''name is required'', ''key is missing'']\<rparr>
     = JArray [''name is required'', ''key is missing'']"
    by simp
  have n: "[''name is required'', ''key is missing''] \<noteq> []"
    by simp
  have reached: "Handler (tmpDirOf env_invalid) validate_event
     \<in> set (calls (fst (build env_invalid None None world0)))"
    by code_simp
  show ?thesis
    using h n reached validation_error_is_aggregate[OF h r n, of None None world0]
    by blast
qed

subsection \<open>C8: stripping the base directory\<close>



subsection \<open>C9: the archive packager\<close>

text \<open>
  C9: for every path of the list given to the packager, the entry is read from the
  path joined to the base directory; when \<^verbatim>\<open>path.dirname\<close> of the path is
  \<^verbatim>\<open>'.'\<close> the entry is stored at the archive root (no directory is passed), and
  otherwise under that directory; the archive is written at the given output path.
\<close>

theorem packager_stores_by_dirname:
  assumes "writeArchive env dir zipPath paths w = (w', Fulfilled u)"
  shows "\<exists>entries. zips w' = (zips w)(zipPath \<mapsto> entries) \<and> length entries = length paths \<and>
     (\<forall>i<length paths.
        fst (entries ! i) = path_join env dir (paths ! i) \<and>
        (path_dirname env (paths ! i) = ''.'' \<longrightarrow> snd (entries ! i) = None) \<and>
        (path_dirname env (paths ! i) \<noteq> ''.'' \<longrightarrow>
           snd (entries ! i) = Some (path_dirname env (paths ! i))))"
proof -
  let ?entries = "map (\<lambda>p. (path_join env dir p,
                     if path_dirname env p = ''.'' then None else Some (path_dirname env p))) paths"
  have "zips w' = (zips w)(zipPath \<mapsto> ?entries)"
    using assms by (rule writeArchive_fulfilled)
  moreover have "length ?entries = length paths"
    by simp
  moreover have "\<forall>i<length paths.
        fst (?entries ! i) = path_join env dir (paths ! i) \<and>
        (path_dirname env (paths ! i) = ''.'' \<longrightarrow> snd (?entries ! i) = None) \<and>
        (path_dirname env (paths ! i) \<noteq> ''.'' \<longrightarrow>
           snd (?entries ! i) = Some (path_dirname env (paths ! i)))"
    by simp
  ultimately show ?thesis
    by blast
qed

theorem packager_stores_by_dirname_witness:
  "snd (writeArchive env_ok ''/tmp/zapier-1a2b'' ''/proj/build.zip'' [''index.js'', ''lib/a.js''] world0)
     = Fulfilled () \<and>
   path_dirname env_ok ''index.js'' = ''.'' \<and>
   path_dirname env_ok ''lib/a.js'' = ''lib'' \<and>
   (\<exists>entries.
      zips (fst (writeArchive env_ok ''/tmp/zapier-1a2b'' ''/proj/build.zip''
                   [''index.js'', ''lib/a.js''] world0))
        = (zips world0)(''/proj/build.zip'' \<mapsto> entries) \<and>
      length entries = length [''index.js'', ''lib/a.js''] \<and>
      (\<forall>i<length [''index.js'', ''lib/a.js''].
        fst (entries ! i) = path_join env_ok ''/tmp/zapier-1a2b'' ([''index.js'', ''lib/a.js''] ! i) \<and>
        (path_dirname env_ok ([''index.js'', ''lib/a.js''] ! i) = ''.'' \<longrightarrow> snd (entries ! i) = None) \<and>
        (path_dirname env_ok ([''index.js'', ''lib/a.js''] ! i) \<noteq> ''.'' \<longrightarrow>
           snd (entries ! i) = Some (path_dirname env_ok ([''index.js'', ''lib/a.js''] ! i)))))"
proof -
  have ok: "snd (writeArchive env_ok ''/tmp/zapier-1a2b'' ''/proj/build.zip''
                   [''index.js'', ''lib/a.js''] world0) = Fulfilled ()"
    by code_simp
  have d1: "path_dirname env_ok ''index.js'' = ''.''"
    by code_simp
  have d2: "path_dirname env_ok ''lib/a.js'' = ''lib''"
    by code_simp
  have run: "writeArchive env_ok ''/tmp/zapier-1a2b'' ''/proj/build.zip'' [''index.js'', ''lib/a.js''] world0
      = (fst (writeArchive env_ok ''/tmp/zapier-1a2b'' ''/proj/build.zip''
                [''index.js'', ''lib/a.js''] world0), Fulfilled ())"
    using ok by (simp add: prod_eq_iff)
  show ?thesis
    using ok d1 d2 packager_stores_by_dirname[OF run]
    by blast
qed

subsection \<open>C10: a resolution failure under IncludeAll\<close>


end
